theory Spec2Isabelle
  imports Complex_Main "HOL-Library.Word"
begin

unbundle bit_operations_syntax

section \<open>Common types\<close>

type_synonym u8 = "8 word"
type_synonym u64 = "64 word"

text \<open>
  \<open>std::to_string\<close> on an unsigned count: the decimal digits, most significant first.
\<close>

definition digit_char :: "nat \<Rightarrow> char" where
  "digit_char d = ''0123456789'' ! d"

function to_string :: "nat \<Rightarrow> string" where
  "to_string n = (if n < 10 then [digit_char n] else to_string (n div 10) @ [digit_char (n mod 10)])"
  by pat_completeness auto
termination
  by (relation "measure id") auto

declare to_string.simps [simp del]

text \<open>
  A C++ \<open>double\<close>: the finite values (a subset of the reals), the two infinities and NaN.
  Only the comparisons of the source are modelled; every comparison with NaN is false.
\<close>

datatype double = Finite real | PosInf | NegInf | NaN

fun d_le :: "double \<Rightarrow> double \<Rightarrow> bool" where
  "d_le NaN _ = False"
| "d_le _ NaN = False"
| "d_le NegInf _ = True"
| "d_le _ PosInf = True"
| "d_le (Finite a) (Finite b) = (a \<le> b)"
| "d_le PosInf _ = False"
| "d_le _ NegInf = False"

definition d_ge :: "double \<Rightarrow> double \<Rightarrow> bool" where
  "d_ge a b = d_le b a"

text \<open>\<open>static_cast<int>\<close> of a value inside the range of \<open>int\<close>: truncation towards zero.\<close>

definition trunc_to_int :: "real \<Rightarrow> int" where
  "trunc_to_int x = (if 0 \<le> x then \<lfloor>x\<rfloor> else \<lceil>x\<rceil>)"

section \<open>YaraScanner.h: results, scan context, scanner state\<close>

record Result =
  isMalware :: bool
  date :: string
  nameDesktop :: string
  severity :: string
  filename :: string
  filepath :: string
  desc :: string
  md5 :: string
  sha1 :: string
  sha256 :: string
  hash :: string
  hash_type :: string
  detection_source :: string
  malware_name :: string
  matched_rules_count :: int
  matched_rules :: "string list"

text \<open>A default-constructed \<open>Result\<close> (the member initialisers of the header).\<close>

definition Result_default :: Result where
  "Result_default = \<lparr> isMalware = False, date = [], nameDesktop = [], severity = [],
     filename = [], filepath = [], desc = [], md5 = [], sha1 = [], sha256 = [],
     hash = [], hash_type = [], detection_source = [], malware_name = [],
     matched_rules_count = 0, matched_rules = [] \<rparr>"

text \<open>
  A \<open>ResultCallback\<close> is a \<open>std::function\<close>: either empty (\<open>None\<close>, what the binding
  builds from Python's \<open>None\<close>) or the caller's sink, named by a number. What a scan hands
  to the sink is returned as the list of delivered results, in order.
\<close>

type_synonym ResultCallback = "nat option"

datatype MonitorState = Stopped | Starting | Running | Stopping

text \<open>
  The signature store behind the prepared statements: per table, the row
  \<open>sqlite3_step\<close> finds for a hash (\<open>None\<close>: no row, or a failed step, which the source
  treats alike); the value is the \<open>malware_name\<close> column, \<open>None\<close> for SQL NULL.
  The whitelist table is the set of its (hash, hash_type) keys.
\<close>

record SignatureDb =
  sig_md5 :: "string \<rightharpoonup> string option"
  sig_sha1 :: "string \<rightharpoonup> string option"
  sig_sha256 :: "string \<rightharpoonup> string option"
  whitelist_rows :: "(string \<times> string) set"

record YaraScanner =
  rules :: bool
  db :: "SignatureDb option"
  initialized :: bool
  monitor_thread_joinable :: bool
  monitor_worker_thread_joinable :: bool
  monitor_state :: MonitorState
  monitoring :: bool
  callbacks_enabled :: bool
  realtime_callback :: ResultCallback
  total_count :: u64
  completed_count :: u64
  throttle_duty_cycle :: double
  throttle_max_sleep_ms :: int
  full_scan_override :: bool
  path_queue :: "string list"
  last_event_time :: "string \<rightharpoonup> nat"

text \<open>The state of a freshly constructed scanner (the in-class initialisers).\<close>

definition YaraScanner_new :: YaraScanner where
  "YaraScanner_new = \<lparr> rules = False, db = None, initialized = False,
     monitor_thread_joinable = False, monitor_worker_thread_joinable = False,
     monitor_state = Stopped, monitoring = False, callbacks_enabled = False,
     realtime_callback = None, total_count = 0, completed_count = 0,
     throttle_duty_cycle = Finite (1/2), throttle_max_sleep_ms = 500,
     full_scan_override = False, path_queue = [], last_event_time = Map.empty \<rparr>"

definition MAX_FILE_SIZE_SKIP :: u64 where
  "MAX_FILE_SIZE_SKIP = 500 * 1024 * 1024"

definition PARTIAL_FILE_MIN :: u64 where
  "PARTIAL_FILE_MIN = 10 * 1024 * 1024"

definition PARTIAL_FILE_MAX :: u64 where
  "PARTIAL_FILE_MAX = 500 * 1024 * 1024"

text \<open>
  What the process environment answers during a scan: the wall clock
  (\<open>currentDateTime\<close>), the host name (\<open>getComputerName\<close>) and \<open>Py_IsInitialized\<close>.
\<close>

record sys_env =
  now_text :: string
  host_name :: string
  py_initialized :: bool

section \<open>Progress accessors\<close>

text \<open>
  \<open>get_progress_percent\<close>: both counters are \<open>uint64_t\<close>, so \<open>c * 100\<close> is computed
  modulo \<open>2^64\<close>; the final cast to \<open>int\<close> is of a value at most 100.
\<close>

definition get_progress_percent :: "YaraScanner \<Rightarrow> int" where
  "get_progress_percent s =
     (let t = total_count s; c = completed_count s in
      if t = 0 then (if c = 0 then 0 else uint (min 99 c))
      else (let pct = (c * 100) div t;
                pct' = (if pct > 100 then 100 else pct)
            in uint pct'))"

definition reset_progress :: "YaraScanner \<Rightarrow> YaraScanner" where
  "reset_progress s = s\<lparr> total_count := 0, completed_count := 0 \<rparr>"

section \<open>Throttle\<close>

text \<open>
  \<open>throttle_after_work\<close>, as the number of milliseconds it sleeps (0: it returns without
  sleeping). \<open>work_dur\<close> is the measured duration in whole milliseconds. The arithmetic on
  finite doubles is written over the reals, without the rounding of IEEE arithmetic: for a
  duty cycle that is not a binary fraction the code's result can differ from this one by a
  millisecond (at the double nearest 0.1 and 10 ms of work the code sleeps 90 ms, the
  real quotient truncates to 89). At the duty cycle \<open>0.5\<close>, the only one the folder scan
  passes, both operations are scalings by a power of two and exact in IEEE arithmetic, and
  the two guards compare exactly. A NaN duty cycle passes both guards and reaches a cast
  of NaN to \<open>int\<close>, which C++ leaves undefined: \<open>None\<close>.
\<close>

definition throttle_after_work :: "int \<Rightarrow> double \<Rightarrow> int \<Rightarrow> int \<Rightarrow> int option" where
  "throttle_after_work work_dur duty_cycle max_sleep_ms min_work_ms_to_throttle =
     (if work_dur < min_work_ms_to_throttle then Some 0
      else if d_le duty_cycle (Finite 0) \<or> d_ge duty_cycle (Finite 1) then Some 0
      else (case duty_cycle of
              Finite d \<Rightarrow>
                (let W = real_of_int work_dur;
                     S = W * (1 - d) / d;
                     sleep_ms = trunc_to_int (min S (real_of_int max_sleep_ms))
                 in if sleep_ms > 0 then Some sleep_ms else Some 0)
            | _ \<Rightarrow> None))"

definition set_throttle_duty :: "double \<Rightarrow> YaraScanner \<Rightarrow> YaraScanner" where
  "set_throttle_duty duty s =
     (if d_le duty (Finite 0) \<or> d_ge duty (Finite 1)
      then s\<lparr> throttle_duty_cycle := Finite 0 \<rparr>
      else s\<lparr> throttle_duty_cycle := duty \<rparr>)"

definition set_throttle_max_sleep_ms :: "int \<Rightarrow> YaraScanner \<Rightarrow> YaraScanner" where
  "set_throttle_max_sleep_ms max_sleep_ms s =
     s\<lparr> throttle_max_sleep_ms := (if max_sleep_ms < 0 then 0 else max_sleep_ms) \<rparr>"

definition get_throttle_settings :: "YaraScanner \<Rightarrow> double \<times> int" where
  "get_throttle_settings s = (throttle_duty_cycle s, throttle_max_sleep_ms s)"

text \<open>
  The throttle call of \<open>scan_folder\<close> after one file: the three arguments are the literals
  written at the call site; the scanner's \<open>throttle_duty_cycle\<close> and
  \<open>throttle_max_sleep_ms\<close> are not read.
\<close>

definition scan_folder_throttle :: "YaraScanner \<Rightarrow> int \<Rightarrow> int option" where
  "scan_folder_throttle s work_dur = throttle_after_work work_dur (Finite (1/2)) 500 2"

text \<open>
  The sleep the throttle bound of the specification prescribes for duty cycle \<open>d\<close>, cap \<open>M\<close>
  and work \<open>w\<close>, in milliseconds.
\<close>

definition spec_throttle_sleep :: "real \<Rightarrow> real \<Rightarrow> real \<Rightarrow> real" where
  "spec_throttle_sleep d M w = (if w < 2 then 0 else min (w * (1 - d) / d) M)"

section \<open>Result sink\<close>

text \<open>
  \<open>call_callback_if_python_ready\<close>: the results handed to the sink (none or one).
  \<open>owner\<close> is \<open>None\<close> when the call site passes no owning scanner, otherwise the owner's
  \<open>callbacks_enabled\<close> flag. An exception thrown by the sink is caught and logged: the
  result was handed over all the same.
\<close>

definition call_callback_if_python_ready ::
  "sys_env \<Rightarrow> ResultCallback \<Rightarrow> Result \<Rightarrow> bool option \<Rightarrow> Result list" where
  "call_callback_if_python_ready env cb r owner =
     (if cb = None then []
      else if owner = Some False then []
      else if \<not> py_initialized env then []
      else [r])"

section \<open>Content scanner callback\<close>

record ScanContext =
  ctx_callback :: ResultCallback
  ctx_owner_enabled :: "bool option"
  ctx_filename :: string
  ctx_filepath :: string
  ctx_md5 :: "string option"
  ctx_sha1 :: "string option"
  ctx_sha256 :: "string option"
  ctx_matched_rules :: "string list"

text \<open>
  The messages the rule engine sends to the callback. A rule-matching message carries the
  rule's identifier, \<open>None\<close> when the rule pointer or its identifier is null.
\<close>

datatype yara_message =
    CALLBACK_MSG_RULE_MATCHING "string option"
  | CALLBACK_MSG_RULE_NOT_MATCHING
  | CALLBACK_MSG_SCAN_FINISHED
  | CALLBACK_MSG_OTHER

text \<open>\<open>static_cast<int>\<close> of a \<open>size_t\<close>: the low 32 bits, read as two's complement.\<close>

definition size_to_int :: "nat \<Rightarrow> int" where
  "size_to_int n = sint (word_of_nat n :: 32 word)"

text \<open>The loop that appends the identifiers to the description, separated by \<open>", "\<close>.\<close>

fun join_rules :: "string list \<Rightarrow> string" where
  "join_rules [] = []"
| "join_rules [x] = x"
| "join_rules (x # y # ys) = x @ '', '' @ join_rules (y # ys)"

definition copy_digest :: "string option \<Rightarrow> string" where
  "copy_digest h = (case h of None \<Rightarrow> [] | Some v \<Rightarrow> v)"

text \<open>
  \<open>rule_match_callback\<close>: the scan context after the message (\<open>user_data\<close>, \<open>None\<close> for a
  null pointer) and the results handed to the sink. Its return value is always
  \<open>CALLBACK_CONTINUE\<close> and is left out.
\<close>

definition rule_match_callback ::
  "sys_env \<Rightarrow> yara_message \<Rightarrow> ScanContext option \<Rightarrow> ScanContext option \<times> Result list" where
  "rule_match_callback env message user_data =
     (case user_data of
        None \<Rightarrow> (None, [])
      | Some ctx \<Rightarrow>
          (case message of
             CALLBACK_MSG_RULE_MATCHING rule \<Rightarrow>
               (let ident = (case rule of None \<Rightarrow> ''unknown'' | Some i \<Rightarrow> i)
                in (Some (ctx\<lparr> ctx_matched_rules := ctx_matched_rules ctx @ [ident] \<rparr>), []))
           | CALLBACK_MSG_SCAN_FINISHED \<Rightarrow>
               (if ctx_matched_rules ctx = [] then (Some ctx, [])
                else
                  (let matches_copy = ctx_matched_rules ctx;
                       ctx' = ctx\<lparr> ctx_matched_rules := [] \<rparr>;
                       count = length matches_copy;
                       r = Result_default\<lparr>
                             isMalware := True,
                             date := now_text env,
                             nameDesktop := host_name env,
                             severity := ''Warning'',
                             filename := ctx_filename ctx,
                             filepath := ctx_filepath ctx,
                             md5 := copy_digest (ctx_md5 ctx),
                             sha1 := copy_digest (ctx_sha1 ctx),
                             sha256 := copy_digest (ctx_sha256 ctx),
                             matched_rules_count := size_to_int count,
                             matched_rules := matches_copy,
                             desc := ''Matched by '' @ to_string count
                                       @ (if count = 1 then '' rule: '' else '' rules: '')
                                       @ join_rules matches_copy,
                             detection_source := ''YARA'' \<rparr>
                   in (Some ctx', call_callback_if_python_ready env (ctx_callback ctx) r None)))
           | _ \<Rightarrow> (Some ctx, [])))"

text \<open>
  One run of the rule engine (\<open>yr_rules_scan_file\<close> or \<open>yr_rules_scan_mem\<close>): the engine
  sends its messages to the callback one after the other.
\<close>

fun deliver_messages ::
  "sys_env \<Rightarrow> yara_message list \<Rightarrow> ScanContext option \<Rightarrow> ScanContext option \<times> Result list" where
  "deliver_messages env [] ud = (ud, [])"
| "deliver_messages env (m # ms) ud =
     (let (ud', out1) = rule_match_callback env m ud;
          (ud'', out2) = deliver_messages env ms ud'
      in (ud'', out1 @ out2))"

section \<open>Signature store lookups\<close>

definition check_hash_whitelist :: "YaraScanner \<Rightarrow> string \<Rightarrow> string \<Rightarrow> bool" where
  "check_hash_whitelist s hex_hash htype =
     (case db s of None \<Rightarrow> False
      | Some d \<Rightarrow> (hex_hash, htype) \<in> whitelist_rows d)"

text \<open>
  \<open>check_hash_in_db\<close>: \<open>None\<close> for \<open>false\<close>, \<open>Some name\<close> for \<open>true\<close> with
  \<open>out_malware_name = name\<close> (the empty string for a NULL column).
\<close>

definition check_hash_in_db :: "YaraScanner \<Rightarrow> string \<Rightarrow> string \<Rightarrow> string option" where
  "check_hash_in_db s hex_hash htype =
     (case db s of None \<Rightarrow> None
      | Some d \<Rightarrow>
          (let row = (if htype = ''MD5'' then sig_md5 d hex_hash
                      else if htype = ''SHA1'' then sig_sha1 d hex_hash
                      else if htype = ''SHA256'' then sig_sha256 d hex_hash
                      else None)
           in (case row of None \<Rightarrow> None
               | Some txt \<Rightarrow> Some (case txt of None \<Rightarrow> [] | Some n \<Rightarrow> n))))"

section \<open>Scan orchestrator\<close>

text \<open>\<open>::tolower\<close> in the C locale: the ASCII capitals move to lower case.\<close>

definition tolower_char :: "char \<Rightarrow> char" where
  "tolower_char c =
     (case map_of (zip ''ABCDEFGHIJKLMNOPQRSTUVWXYZ'' ''abcdefghijklmnopqrstuvwxyz'') c of
        Some l \<Rightarrow> l
      | None \<Rightarrow> c)"

fun starts_with :: "string \<Rightarrow> string \<Rightarrow> bool" where
  "starts_with s [] = True"
| "starts_with [] (k # ks) = False"
| "starts_with (c # cs) (k # ks) = (c = k \<and> starts_with cs ks)"

text \<open>\<open>s.find(k) != std::string::npos\<close>.\<close>

fun str_contains :: "string \<Rightarrow> string \<Rightarrow> bool" where
  "str_contains [] k = (k = [])"
| "str_contains (c # cs) k = (starts_with (c # cs) k \<or> str_contains cs k)"

definition excluded_keywords :: "string list" where
  "excluded_keywords =
     [ [CHR ''c'', CHR '':'', CHR 0x5C] @ ''programdata'' @ [CHR 0x5C] @ ''pbl4_av_data'',
       [CHR 0x5C] @ ''device'' @ [CHR 0x5C],
       [CHR 0x5C] @ ''windows'' @ [CHR 0x5C] @ ''system32'',
       [CHR 0x5C] @ ''windows'' @ [CHR 0x5C] @ ''winsxs'',
       [CHR 0x5C] @ ''$recycle.bin'',
       ''system volume information'',
       [CHR 0x5C] @ ''appdata'' @ [CHR 0x5C] @ ''local'' @ [CHR 0x5C] @ ''temp'',
       ''node_modules'',
       ''.git'',
       ''all_rules.yarc'',
       ''full_hash.db'',
       ''PBL4_Client.exe'' ]"

definition is_excluded_path :: "string \<Rightarrow> bool" where
  "is_excluded_path file_path =
     (let path_str = map tolower_char file_path
      in list_ex (\<lambda>keyword. str_contains path_str keyword) excluded_keywords)"

text \<open>
  What the file system, the digest service, the trust provider and the rule engine answer
  for the scanned path:
  \<^item> \<open>exists_regular\<close>: \<open>fs::exists\<close> and \<open>fs::is_regular_file\<close>;
  \<^item> \<open>fsize\<close>: the value \<open>fs::file_size\<close> returned;
  \<^item> \<open>trusted_publisher\<close>: \<open>check_trusted_publisher_and_skip\<close>;
  \<^item> \<open>digest_md5\<close>, \<open>digest_sha1\<close>, \<open>digest_sha256\<close>: \<open>compute_all_hashes\<close>;
  \<^item> \<open>base_name\<close>: \<open>fs::path(file_path).filename().string()\<close>;
  \<^item> \<open>file_scan_msgs\<close>, \<open>file_scan_ok\<close>: the messages \<open>yr_rules_scan_file\<close> sends and
    whether it returned \<open>ERROR_SUCCESS\<close>;
  \<^item> \<open>read_ok\<close>: \<open>read_prefix_suffix\<close>;
  \<^item> \<open>mem_scan_msgs\<close>, \<open>mem_scan_ok\<close>: the same for \<open>yr_rules_scan_mem\<close> on the sampled
    buffer.
\<close>

record file_env =
  exists_regular :: bool
  fsize :: u64
  trusted_publisher :: bool
  digest_md5 :: "string option"
  digest_sha1 :: "string option"
  digest_sha256 :: "string option"
  base_name :: string
  file_scan_msgs :: "yara_message list"
  file_scan_ok :: bool
  read_ok :: bool
  mem_scan_msgs :: "yara_message list"
  mem_scan_ok :: bool

datatype content_scan_kind = NoContentScan | FullFileScan | PartialScan

text \<open>
  What one call of \<open>scan_file_internal\<close> did: the results handed to the sink, the number
  added to \<open>completed_count\<close>, whether the digests were computed, which content scan ran,
  and whether an exception left the function.
\<close>

record scan_outcome =
  emitted :: "Result list"
  completed_added :: nat
  hashes_computed :: bool
  content_scan :: content_scan_kind
  exception_escaped :: bool

definition silent_return :: scan_outcome where
  "silent_return = \<lparr> emitted = [], completed_added = 0, hashes_computed = False,
     content_scan = NoContentScan, exception_escaped = False \<rparr>"

definition policy_notice :: "sys_env \<Rightarrow> string \<Rightarrow> file_env \<Rightarrow> string \<Rightarrow> string \<Rightarrow> Result" where
  "policy_notice env file_path f description source =
     Result_default\<lparr> isMalware := False, date := now_text env, nameDesktop := host_name env,
       severity := ''NOTICE'', filename := base_name f, filepath := file_path,
       desc := description, detection_source := source \<rparr>"

definition error_result :: "sys_env \<Rightarrow> string \<Rightarrow> file_env \<Rightarrow> string \<Rightarrow> Result" where
  "error_result env file_path f description =
     Result_default\<lparr> isMalware := False, date := now_text env, nameDesktop := host_name env,
       severity := ''ERROR'', filename := base_name f, filepath := file_path,
       desc := description \<rparr>"

text \<open>The result of a signature hit: \<open>r_base\<close> with the fields of the matching branch.\<close>

definition hash_detection ::
  "sys_env \<Rightarrow> string \<Rightarrow> file_env \<Rightarrow> string \<Rightarrow> string \<Rightarrow> string \<Rightarrow> Result" where
  "hash_detection env file_path f htype hex name =
     Result_default\<lparr> date := now_text env, nameDesktop := host_name env,
       filename := base_name f, filepath := file_path,
       isMalware := True, hash := hex, hash_type := htype, detection_source := ''HASH'',
       severity := ''High'', desc := ''Matched '' @ htype @ '' in DB'',
       malware_name := name \<rparr>"

definition new_scan_context :: "string \<Rightarrow> file_env \<Rightarrow> ResultCallback \<Rightarrow> YaraScanner \<Rightarrow> ScanContext" where
  "new_scan_context file_path f callback s =
     \<lparr> ctx_callback = callback, ctx_owner_enabled = Some (callbacks_enabled s),
       ctx_filename = base_name f, ctx_filepath = file_path,
       ctx_md5 = digest_md5 f, ctx_sha1 = digest_sha1 f, ctx_sha256 = digest_sha256 f,
       ctx_matched_rules = [] \<rparr>"

text \<open>
  Step 3 of \<open>scan_file_internal\<close>: no signature matched, the content scan follows the
  size policy. A size above \<open>PARTIAL_FILE_MAX\<close> falls through both branches. The direct
  call \<open>callback(err)\<close> of an empty \<open>std::function\<close> throws; the handler calls it again,
  and that exception leaves the function.
\<close>

definition yara_stage ::
  "sys_env \<Rightarrow> YaraScanner \<Rightarrow> string \<Rightarrow> file_env \<Rightarrow> ResultCallback \<Rightarrow> scan_outcome" where
  "yara_stage env s file_path f callback =
     (if \<not> rules s then
        silent_return\<lparr> hashes_computed := True \<rparr>
      else if fsize f \<le> PARTIAL_FILE_MIN then
        (let (ud, out) = deliver_messages env (file_scan_msgs f)
                           (Some (new_scan_context file_path f callback s));
             err = (if \<not> file_scan_ok f
                    then call_callback_if_python_ready env callback
                           (error_result env file_path f ''YARA full-file scan failed'') None
                    else [])
         in silent_return\<lparr> emitted := out @ err, hashes_computed := True,
                            content_scan := FullFileScan \<rparr>)
      else if fsize f > PARTIAL_FILE_MIN \<and> fsize f \<le> PARTIAL_FILE_MAX then
        (if \<not> read_ok f then
           (if callback = None
            then silent_return\<lparr> hashes_computed := True, exception_escaped := True \<rparr>
            else silent_return\<lparr>
                   emitted := [error_result env file_path f
                                 ''Failed to read file segments for partial scan''],
                   hashes_computed := True \<rparr>)
         else
           (let (ud, out) = deliver_messages env (mem_scan_msgs f)
                              (Some (new_scan_context file_path f callback s));
                err = (if \<not> mem_scan_ok f
                       then call_callback_if_python_ready env callback
                              (error_result env file_path f ''YARA partial scan failed'') None
                       else [])
            in silent_return\<lparr> emitted := out @ err, hashes_computed := True,
                               content_scan := PartialScan \<rparr>))
      else silent_return\<lparr> hashes_computed := True \<rparr>)"

text \<open>
  One of the three lookup blocks of step 2: skipped when the digest is absent, otherwise
  \<open>check_hash_in_db\<close> with the digest; a hit is the digest with the malware name.
\<close>

definition lookup_digest :: "YaraScanner \<Rightarrow> string option \<Rightarrow> string \<Rightarrow> (string \<times> string) option" where
  "lookup_digest s digest htype =
     (case digest of None \<Rightarrow> None
      | Some h \<Rightarrow> map_option (Pair h) (check_hash_in_db s h htype))"

definition report_hit ::
  "sys_env \<Rightarrow> string \<Rightarrow> file_env \<Rightarrow> ResultCallback \<Rightarrow> string \<Rightarrow> string \<times> string \<Rightarrow> scan_outcome" where
  "report_hit env file_path f callback htype hit =
     silent_return\<lparr>
       emitted := call_callback_if_python_ready env callback
                    (hash_detection env file_path f htype (fst hit) (snd hit)) None,
       hashes_computed := True \<rparr>"

text \<open>
  Step 2: the signature store is asked for the SHA-256, then the SHA-1, then the MD5
  digest; the first hit is reported and the function returns. Without a hit the content
  scan of step 3 follows.
\<close>

definition signature_stage ::
  "sys_env \<Rightarrow> YaraScanner \<Rightarrow> string \<Rightarrow> file_env \<Rightarrow> ResultCallback \<Rightarrow> scan_outcome" where
  "signature_stage env s file_path f callback =
     (case lookup_digest s (digest_sha256 f) ''SHA256'' of
        Some hit \<Rightarrow> report_hit env file_path f callback ''SHA256'' hit
      | None \<Rightarrow>
          (case lookup_digest s (digest_sha1 f) ''SHA1'' of
             Some hit \<Rightarrow> report_hit env file_path f callback ''SHA1'' hit
           | None \<Rightarrow>
               (case lookup_digest s (digest_md5 f) ''MD5'' of
                  Some hit \<Rightarrow> report_hit env file_path f callback ''MD5'' hit
                | None \<Rightarrow> yara_stage env s file_path f callback)))"

text \<open>The whitelist test after the digests: SHA-256, SHA-1, MD5, with lower-case type names.\<close>

definition whitelist_hit :: "YaraScanner \<Rightarrow> file_env \<Rightarrow> bool" where
  "whitelist_hit s f =
     ((case digest_sha256 f of None \<Rightarrow> False | Some h \<Rightarrow> check_hash_whitelist s h ''sha256'')
      \<or> (case digest_sha1 f of None \<Rightarrow> False | Some h \<Rightarrow> check_hash_whitelist s h ''sha1'')
      \<or> (case digest_md5 f of None \<Rightarrow> False | Some h \<Rightarrow> check_hash_whitelist s h ''md5''))"

definition skip_by_size :: "file_env \<Rightarrow> bool" where
  "skip_by_size f = (fsize f > 0 \<and> fsize f > MAX_FILE_SIZE_SKIP)"

definition scan_file_internal ::
  "sys_env \<Rightarrow> YaraScanner \<Rightarrow> string \<Rightarrow> file_env \<Rightarrow> ResultCallback \<Rightarrow> scan_outcome" where
  "scan_file_internal env s file_path f callback =
     (if \<not> initialized s then silent_return
      else if is_excluded_path file_path then silent_return\<lparr> completed_added := 1 \<rparr>
      else if \<not> exists_regular f then silent_return
      else if skip_by_size f \<and> \<not> full_scan_override s then
        silent_return\<lparr>
          emitted := (if callback \<noteq> None
                      then call_callback_if_python_ready env callback
                             (policy_notice env file_path f
                                ''Skipped: file too large (>500MB)'' ''POLICY'')
                             (Some (callbacks_enabled s))
                      else []),
          completed_added := 1 \<rparr>
      else if \<not> full_scan_override s \<and> trusted_publisher f then
        silent_return\<lparr>
          emitted := (if callback \<noteq> None
                      then call_callback_if_python_ready env callback
                             (policy_notice env file_path f
                                ''Skipped: trusted publisher signature'' ''POLICY'')
                             (Some (callbacks_enabled s))
                      else []),
          completed_added := 1 \<rparr>
      else if \<not> full_scan_override s \<and> whitelist_hit s f then
        silent_return\<lparr>
          emitted := call_callback_if_python_ready env callback
                       (policy_notice env file_path f ''Skipped: hash whitelisted'' ''WHITELIST'')
                       (Some (callbacks_enabled s)),
          completed_added := 1, hashes_computed := True \<rparr>
      else signature_stage env s file_path f callback)"

text \<open>The counter update a scan outcome stands for (\<open>fetch_add\<close> on a \<open>uint64_t\<close>).\<close>

definition add_completed :: "scan_outcome \<Rightarrow> YaraScanner \<Rightarrow> YaraScanner" where
  "add_completed oc s = s\<lparr> completed_count := completed_count s + word_of_nat (completed_added oc) \<rparr>"

section \<open>Folder scan\<close>

text \<open>
  One entry of the recursive directory walk: its path, whether it is a regular file, what
  the environment answers for it, and the duration \<open>throttle_after_work\<close> measures for
  it in milliseconds.
\<close>

record dir_entry =
  entry_path :: string
  entry_is_regular :: bool
  entry_env :: file_env
  entry_work_ms :: int

text \<open>
  The body of the scanning loop for one entry: the scanner afterwards, the results handed
  to the sink and the sleep of the throttle (\<open>None\<close> when no throttle call was reached, or
  when its cast is undefined). An exception leaving \<open>scan_file_internal\<close> is swallowed by
  the loop's handler, which skips the counter increment and the throttle.
\<close>

definition scan_folder_step ::
  "sys_env \<Rightarrow> ResultCallback \<Rightarrow> dir_entry \<Rightarrow> YaraScanner \<Rightarrow> YaraScanner \<times> Result list \<times> int option" where
  "scan_folder_step env callback e s =
     (if \<not> entry_is_regular e then (s, [], None)
      else
        (let oc = scan_file_internal env s (entry_path e) (entry_env e) callback;
             s1 = add_completed oc s
         in if exception_escaped oc then (s1, emitted oc, None)
            else (s1\<lparr> completed_count := completed_count s1 + 1 \<rparr>, emitted oc,
                  scan_folder_throttle s1 (entry_work_ms e))))"

fun scan_folder_loop ::
  "sys_env \<Rightarrow> ResultCallback \<Rightarrow> dir_entry list \<Rightarrow> YaraScanner \<Rightarrow> YaraScanner \<times> Result list \<times> int option list" where
  "scan_folder_loop env callback [] s = (s, [], [])"
| "scan_folder_loop env callback (e # es) s =
     (let (s1, out1, sl) = scan_folder_step env callback e s;
          (s2, out2, sls) = scan_folder_loop env callback es s1
      in (s2, out1 @ out2, sl # sls))"

text \<open>
  \<open>scan_folder\<close>; \<open>root_exists\<close> is \<open>fs::exists(scan_path)\<close>, and both walks of the tree
  see the same entries.
\<close>

definition scan_folder ::
  "sys_env \<Rightarrow> bool \<Rightarrow> dir_entry list \<Rightarrow> ResultCallback \<Rightarrow> YaraScanner \<Rightarrow> YaraScanner \<times> Result list \<times> int option list" where
  "scan_folder env root_exists entries callback s =
     (if \<not> initialized s then (s, [], [])
      else if \<not> root_exists then (s, [], [])
      else
        (let total = length (filter entry_is_regular entries);
             s0 = s\<lparr> total_count := word_of_nat total, completed_count := 0 \<rparr>
         in scan_folder_loop env callback entries s0))"

section \<open>Event queue\<close>

text \<open>\<open>enqueue_path_for_scan\<close>; \<open>now\<close> is the reading of the steady clock.\<close>

definition enqueue_path_for_scan :: "string \<Rightarrow> nat \<Rightarrow> YaraScanner \<Rightarrow> YaraScanner" where
  "enqueue_path_for_scan path now s =
     (if path = [] then s
      else
        (case last_event_time s path of
           None \<Rightarrow> s\<lparr> path_queue := path_queue s @ [path],
                      last_event_time := (last_event_time s)(path \<mapsto> now) \<rparr>
         | Some _ \<Rightarrow>
             (let already_in_queue = (path \<in> set (path_queue s));
                  s1 = s\<lparr> last_event_time := (last_event_time s)(path \<mapsto> now) \<rparr>
              in if \<not> already_in_queue then s1\<lparr> path_queue := path_queue s1 @ [path] \<rparr>
                 else s1)))"

text \<open>\<open>pop_queued_path\<close>: the popped path (\<open>None\<close> for \<open>false\<close>) and the scanner.\<close>

definition pop_queued_path :: "YaraScanner \<Rightarrow> string option \<times> YaraScanner" where
  "pop_queued_path s =
     (case path_queue s of
        [] \<Rightarrow> (None, s)
      | p # ps \<Rightarrow> (Some p, s\<lparr> path_queue := ps \<rparr>))"

datatype queue_op = Enqueue string nat | Pop

fun apply_queue_op :: "queue_op \<Rightarrow> YaraScanner \<Rightarrow> YaraScanner" where
  "apply_queue_op (Enqueue p t) s = enqueue_path_for_scan p t s"
| "apply_queue_op Pop s = snd (pop_queued_path s)"

fun run_queue_ops :: "queue_op list \<Rightarrow> YaraScanner \<Rightarrow> YaraScanner" where
  "run_queue_ops [] s = s"
| "run_queue_ops (x # xs) s = run_queue_ops xs (apply_queue_op x s)"

section \<open>Monitor lifecycle\<close>

text \<open>
  What the watcher and worker threads have done to the fields they share with the caller
  by the time they are joined: the queue, the last-seen map and the progress counter.
\<close>

record thread_effects =
  te_path_queue :: "string list"
  te_last_event_time :: "string \<rightharpoonup> nat"
  te_completed_count :: u64

definition threads_ran :: "thread_effects \<Rightarrow> YaraScanner \<Rightarrow> YaraScanner" where
  "threads_ran te s = s\<lparr> path_queue := te_path_queue te,
     last_event_time := te_last_event_time te, completed_count := te_completed_count te \<rparr>"

text \<open>
  \<open>start_realtime\<close>: the returned flag and the scanner. \<open>worker_spawned\<close> and
  \<open>watcher_spawned\<close> tell whether the two \<open>std::thread\<close> constructors succeeded; \<open>te\<close> is
  what the worker did before it was joined on the failure path.
\<close>

definition start_realtime ::
  "ResultCallback \<Rightarrow> bool \<Rightarrow> bool \<Rightarrow> thread_effects \<Rightarrow> YaraScanner \<Rightarrow> bool \<times> YaraScanner" where
  "start_realtime callback worker_spawned watcher_spawned te s =
     (if monitor_state s \<noteq> Stopped then (False, s)
      else
        (let s1 = s\<lparr> monitor_state := Starting, realtime_callback := callback,
                     callbacks_enabled := True, monitoring := True \<rparr>
         in if \<not> worker_spawned
            then (False, s1\<lparr> monitoring := False, monitor_state := Stopped \<rparr>)
            else
              (let s2 = s1\<lparr> monitor_worker_thread_joinable := True \<rparr>
               in if \<not> watcher_spawned
                  then (False, (threads_ran te (s2\<lparr> monitoring := False \<rparr>))
                                 \<lparr> monitor_worker_thread_joinable := False,
                                   monitor_state := Stopped \<rparr>)
                  else (True, s2\<lparr> monitor_thread_joinable := True,
                                   monitor_state := Running \<rparr>))))"

text \<open>
  \<open>stop_realtime\<close>, up to its return; \<open>te\<close> is what the two threads did before their joins
  completed.
\<close>

definition stop_realtime :: "thread_effects \<Rightarrow> YaraScanner \<Rightarrow> YaraScanner" where
  "stop_realtime te s =
     (if monitor_state s \<noteq> Running then s\<lparr> monitoring := False \<rparr>
      else
        (let s1 = s\<lparr> monitor_state := Stopping, monitoring := False \<rparr>;
             s2 = s1\<lparr> callbacks_enabled := False, realtime_callback := None \<rparr>;
             s3 = (threads_ran te s2)\<lparr> monitor_thread_joinable := False,
                                       monitor_worker_thread_joinable := False \<rparr>;
             s4 = s3\<lparr> path_queue := [], last_event_time := Map.empty \<rparr>
         in s4\<lparr> monitor_state := Stopped \<rparr>))"

section \<open>Quarantine manager\<close>

definition DEFAULT_XOR_KEY :: "u8 list" where
  "DEFAULT_XOR_KEY = [0xAA, 0x55, 0xC3, 0x7E, 0x9A, 0x1F, 0xB6, 0x4D]"

definition DEFAULT_QUARANTINE_FOLDER_LIMIT_BYTES :: u64 where
  "DEFAULT_QUARANTINE_FOLDER_LIMIT_BYTES = 524288000"

definition DEFAULT_SAFE_FREE_BYTES :: u64 where
  "DEFAULT_SAFE_FREE_BYTES = 104857600"

text \<open>
  The byte loop of \<open>xor_transform_file\<close>: \<open>kpos\<close> runs through the key and is kept from
  one buffer to the next, so the chunking of the reads does not show.
\<close>

fun xor_bytes :: "u8 list \<Rightarrow> nat \<Rightarrow> u8 list" where
  "xor_bytes [] kpos = []"
| "xor_bytes (b # bs) kpos =
     (b XOR (DEFAULT_XOR_KEY ! kpos)) # xor_bytes bs ((kpos + 1) mod length DEFAULT_XOR_KEY)"

text \<open>A row of \<open>quarantine_files\<close>.\<close>

record quarantine_row =
  row_id :: nat
  original_path :: string
  stored_filename :: string
  stored_path :: string
  stored_size :: u64
  quarantined_at :: nat
  original_hash :: string
  row_hash_type :: string
  deleted :: bool
  restored :: bool

text \<open>
  The manager together with what it works on: its folder setting and database handle, the
  regular files on disk (path to content), and the two tables it reads and writes.
\<close>

record QuarantineManager =
  quarantine_folder :: string
  db_handle_open :: bool
  disk :: "string \<rightharpoonup> u8 list"
  db_info :: "string \<rightharpoonup> string"
  quarantine_files :: "quarantine_row list"

text \<open>
  What the libraries and the operating system answer during one call:
  \<^item> \<open>db_opens\<close>: \<open>sqlite3_open_v2\<close> succeeds; \<open>db_errmsg\<close>: \<open>sqlite3_errmsg\<close>;
  \<^item> \<open>stoull\<close>: \<open>std::stoull\<close>, \<open>None\<close> when it throws;
  \<^item> \<open>folder_ready\<close>: the quarantine folder exists or could be created, and
    \<open>folder_error\<close> the text of the exception otherwise;
  \<^item> \<open>free_space\<close>: what \<open>get_free_space_bytes\<close> returns;
  \<^item> \<open>folder_bytes\<close>: the summed size of the regular files in the quarantine folder,
    \<open>None\<close> when the directory iteration throws;
  \<^item> \<open>unique_name\<close>: what \<open>make_unique_stored_filename\<close> builds from the clock, the
    random generator and the file name;
  \<^item> \<open>sha256_hex\<close>: the SHA-256 of a byte sequence in lower-case hex (OpenSSL);
  \<^item> \<open>insert_succeeds\<close>: the \<open>INSERT\<close> into \<open>quarantine_files\<close> is prepared and its step
    returns \<open>SQLITE_DONE\<close>;
  \<^item> \<open>db_time\<close>: \<open>datetime('now')\<close>.
  Opening the destination stream and removing files are taken to succeed.
\<close>

record q_env =
  db_opens :: bool
  db_errmsg :: string
  stoull :: "string \<Rightarrow> u64 option"
  folder_ready :: bool
  folder_error :: string
  free_space :: u64
  folder_bytes :: "u64 option"
  unique_name :: string
  sha256_hex :: "u8 list \<Rightarrow> string"
  insert_succeeds :: bool
  db_time :: nat

definition path_join :: "string \<Rightarrow> string \<Rightarrow> string" where
  "path_join a b = a @ ''/'' @ b"

definition get_db_info_value :: "QuarantineManager \<Rightarrow> string \<Rightarrow> string \<Rightarrow> string" where
  "get_db_info_value m k default_val =
     (if \<not> db_handle_open m then default_val
      else (case db_info m k of None \<Rightarrow> default_val | Some v \<Rightarrow> v))"

definition get_total_quarantine_bytes :: "q_env \<Rightarrow> QuarantineManager \<Rightarrow> u64" where
  "get_total_quarantine_bytes env m =
     (if \<not> db_handle_open m then 0
      else
        (let val = get_db_info_value m ''quarantine_total_size'' [];
             parsed = (if val \<noteq> [] then stoull env val else None)
         in case parsed of
              Some v \<Rightarrow> v
            | None \<Rightarrow> (case folder_bytes env of Some t \<Rightarrow> t | None \<Rightarrow> 0)))"

definition file_size_bytes :: "QuarantineManager \<Rightarrow> string \<Rightarrow> u64" where
  "file_size_bytes m path = (case disk m path of None \<Rightarrow> 0 | Some bs \<Rightarrow> word_of_nat (length bs))"

text \<open>\<open>compute_hash\<close> for \<open>"sha256"\<close>: \<open>None\<close> when the file cannot be opened.\<close>

definition compute_hash :: "q_env \<Rightarrow> QuarantineManager \<Rightarrow> string \<Rightarrow> string option" where
  "compute_hash env m path = map_option (sha256_hex env) (disk m path)"

text \<open>
  \<open>xor_transform_file\<close>: \<open>None\<close> when the source cannot be opened, otherwise the manager
  with the destination written and the number of bytes written.
\<close>

definition xor_transform_file ::
  "string \<Rightarrow> string \<Rightarrow> QuarantineManager \<Rightarrow> (QuarantineManager \<times> u64) option" where
  "xor_transform_file src dst m =
     (case disk m src of
        None \<Rightarrow> None
      | Some bs \<Rightarrow>
          Some (m\<lparr> disk := (disk m)(dst \<mapsto> xor_bytes bs 0) \<rparr>, word_of_nat (length bs)))"

definition fresh_row_id :: "quarantine_row list \<Rightarrow> nat" where
  "fresh_row_id rows = Suc (fold max (map row_id rows) 0)"

definition insert_quarantine_record ::
  "q_env \<Rightarrow> string \<Rightarrow> string \<Rightarrow> u64 \<Rightarrow> string \<Rightarrow> QuarantineManager \<Rightarrow> bool \<times> QuarantineManager" where
  "insert_quarantine_record env stored_name original_full_path sz original_hash_arg m =
     (if \<not> db_handle_open m then (False, m)
      else if \<not> insert_succeeds env then (False, m)
      else (True, m\<lparr> quarantine_files := quarantine_files m @
              [\<lparr> row_id = fresh_row_id (quarantine_files m),
                 original_path = original_full_path,
                 stored_filename = stored_name,
                 stored_path = quarantine_folder m,
                 stored_size = sz,
                 quarantined_at = db_time env,
                 original_hash = original_hash_arg,
                 row_hash_type = ''sha256'',
                 deleted = False,
                 restored = False \<rparr>] \<rparr>))"

definition remove_quarantine_record_by_id :: "nat \<Rightarrow> QuarantineManager \<Rightarrow> bool \<times> QuarantineManager" where
  "remove_quarantine_record_by_id rid m =
     (if \<not> db_handle_open m then (False, m)
      else
        (case filter (\<lambda>r. row_id r = rid) (quarantine_files m) of
           [] \<Rightarrow> (False, m)
         | r # _ \<Rightarrow>
             (let fp = path_join (stored_path r) (stored_filename r)
              in (True, m\<lparr> disk := (disk m)(fp := None),
                           quarantine_files := filter (\<lambda>r. row_id r \<noteq> rid) (quarantine_files m) \<rparr>))))"

text \<open>
  The selection loop of \<open>prune_quarantine_if_needed\<close> over the rows in the order of the
  query: it stops as soon as the running sum reaches \<open>needed_bytes\<close>.
\<close>

fun select_oldest :: "quarantine_row list \<Rightarrow> u64 \<Rightarrow> u64 \<Rightarrow> quarantine_row list \<times> u64" where
  "select_oldest [] needed freed = ([], freed)"
| "select_oldest (r # rs) needed freed =
     (let freed' = freed + stored_size r
      in if freed' \<ge> needed then ([r], freed')
         else (let (sel, total) = select_oldest rs needed freed' in (r # sel, total)))"

fun remove_all :: "nat list \<Rightarrow> QuarantineManager \<Rightarrow> QuarantineManager" where
  "remove_all [] m = m"
| "remove_all (rid # rids) m = remove_all rids (snd (remove_quarantine_record_by_id rid m))"

text \<open>
  \<open>prune_quarantine_if_needed\<close>: success flag, \<open>out_freed_bytes\<close>, \<open>out_error\<close> and the
  manager afterwards.
\<close>

definition prune_quarantine_if_needed ::
  "u64 \<Rightarrow> QuarantineManager \<Rightarrow> bool \<times> u64 \<times> string \<times> QuarantineManager" where
  "prune_quarantine_if_needed needed_bytes m =
     (if needed_bytes = 0 then (True, 0, [], m)
      else if \<not> db_handle_open m then (False, 0, ''DB not open'', m)
      else
        (let candidates = sort_key quarantined_at (filter (\<lambda>r. \<not> deleted r) (quarantine_files m));
             (sel, freed) = select_oldest candidates needed_bytes 0
         in if freed < needed_bytes
            then (False, freed, ''Not enough reclaimable space in quarantine to satisfy request'', m)
            else (True, freed, [], remove_all (map row_id sel) m)))"

text \<open>
  The tail the two branches of \<open>quarantine\<close> share up to the insert: obfuscated copy,
  digest of the stored file, insert, removal of the original. It returns \<open>None\<close> when the
  copy fails, otherwise the insert's flag, the destination path and the manager.
\<close>

definition store_and_record ::
  "q_env \<Rightarrow> string \<Rightarrow> QuarantineManager \<Rightarrow> (bool \<times> string \<times> QuarantineManager) option" where
  "store_and_record env file_path m =
     (let stored_name = unique_name env;
          dest = path_join (quarantine_folder m) stored_name
      in case xor_transform_file file_path dest m of
           None \<Rightarrow> None
         | Some (m1, bytes_written) \<Rightarrow>
             (let hash_text = (case compute_hash env m1 dest of None \<Rightarrow> [] | Some h \<Rightarrow> h);
                  (ok, m2) = insert_quarantine_record env stored_name file_path bytes_written hash_text m1;
                  m3 = m2\<lparr> disk := (disk m2)(file_path := None) \<rparr>
              in Some (ok, dest, m3)))"

text \<open>\<open>quarantine\<close>: the status string and the manager afterwards.\<close>

definition quarantine :: "q_env \<Rightarrow> string \<Rightarrow> QuarantineManager \<Rightarrow> string \<times> QuarantineManager" where
  "quarantine env file_path m0 =
     (if \<not> db_handle_open m0 \<and> \<not> db_opens env
      then (''ERROR: Cannot open DB: '' @ ''Failed to open DB: '' @ db_errmsg env, m0)
      else
        (let m1 = m0\<lparr> db_handle_open := True \<rparr>;
             folder = get_db_info_value m1 ''quarantine_folder_path'' (quarantine_folder m1);
             m = (if folder \<noteq> [] then m1\<lparr> quarantine_folder := folder \<rparr> else m1);
             folder_limit_str = get_db_info_value m ''quarantine_folder_limit_bytes''
                                  (to_string (unat DEFAULT_QUARANTINE_FOLDER_LIMIT_BYTES));
             safe_free_str = get_db_info_value m ''quarantine_safe_free_bytes''
                               (to_string (unat DEFAULT_SAFE_FREE_BYTES));
             folder_limit = (case stoull env folder_limit_str of
                               Some v \<Rightarrow> v | None \<Rightarrow> DEFAULT_QUARANTINE_FOLDER_LIMIT_BYTES);
             safe_free = (case stoull env safe_free_str of
                            Some v \<Rightarrow> v | None \<Rightarrow> DEFAULT_SAFE_FREE_BYTES)
         in if \<not> folder_ready env
            then (''ERROR: '' @ ''Failed to ensure quarantine folder exists: '' @ folder_error env, m)
            else
              (let free_bytes = free_space env;
                   orig_size = file_size_bytes m file_path
               in if orig_size = 0 \<and> disk m file_path = None
                  then (''ERROR: File not found: '' @ file_path, m)
                  else if free_bytes < safe_free
                  then (''EMERGENCY_DELETED: free_bytes('' @ to_string (unat free_bytes)
                          @ '') < safe_threshold('' @ to_string (unat safe_free)
                          @ ''), deleted '' @ file_path,
                        m\<lparr> disk := (disk m)(file_path := None) \<rparr>)
                  else
                    (let current_quarantine_total = get_total_quarantine_bytes env m;
                         stored_sz = orig_size
                     in if current_quarantine_total + stored_sz > folder_limit
                        then
                          (let needed = (current_quarantine_total + stored_sz) - folder_limit;
                               (pr_ok, freed, perr, mp) = prune_quarantine_if_needed needed m
                           in if \<not> pr_ok
                              then (''ERROR: Unable to make room in quarantine: '' @ perr, mp)
                              else
                                (case store_and_record env file_path mp of
                                   None \<Rightarrow>
                                     (''ERROR: Failed to move file to quarantine: ''
                                        @ ''Failed to open source file for XOR transform'', mp)
                                 | Some (ok, dest, m3) \<Rightarrow>
                                     (''PRUNED_AND_QUARANTINED: freed='' @ to_string (unat freed)
                                        @ '' bytes; stored_as='' @ dest, m3)))
                        else
                          (case store_and_record env file_path m of
                             None \<Rightarrow>
                               (''ERROR: Failed to move file to quarantine: ''
                                  @ ''Failed to open source file for XOR transform'', m)
                           | Some (ok, dest, m3) \<Rightarrow>
                               (if ok then (''QUARANTINED: stored_as='' @ dest, m3)
                                else (''ERROR: Failed to record quarantine in DB: '' @ db_errmsg env,
                                      m3\<lparr> disk := (disk m3)(dest := None) \<rparr>)))))))"

section \<open>Specification-side definitions\<close>

text \<open>
  The progress formula as the specification words it, on unbounded numbers:
  \<open>floor(100 * completed / total)\<close> clamped to \<open>[0, 100]\<close> when \<open>total > 0\<close>,
  \<open>min(completed, 99)\<close> when \<open>total = 0\<close> and \<open>completed > 0\<close>, and 0 otherwise.
\<close>

definition spec_progress_percent :: "nat \<Rightarrow> nat \<Rightarrow> int" where
  "spec_progress_percent tot completed =
     (if tot > 0 then max 0 (min 100 (\<lfloor>100 * real completed / real tot\<rfloor>))
      else if completed > 0 then min (int completed) 99
      else 0)"

text \<open>The two invariants of the event queue.\<close>

definition queue_invariant :: "YaraScanner \<Rightarrow> bool" where
  "queue_invariant s = (distinct (path_queue s) \<and> set (path_queue s) \<subseteq> dom (last_event_time s))"

section \<open>Example inputs\<close>

definition running_monitor :: YaraScanner where
  "running_monitor = YaraScanner_new\<lparr> initialized := True, monitor_state := Running,
     monitoring := True, callbacks_enabled := True, realtime_callback := Some 1,
     monitor_thread_joinable := True, monitor_worker_thread_joinable := True,
     path_queue := [''a''], last_event_time := [''a'' \<mapsto> 5] \<rparr>"

definition busy_threads :: thread_effects where
  "busy_threads = \<lparr> te_path_queue = [''a'', ''b''],
     te_last_event_time = [''a'' \<mapsto> 5, ''b'' \<mapsto> 7], te_completed_count = 3 \<rparr>"

definition demo_env :: sys_env where
  "demo_env = \<lparr> now_text = ''2025-01-01 00:00:00'', host_name = ''HOST'', py_initialized = True \<rparr>"

section \<open>Definitions for the scan properties\<close>

text \<open>
  A scan outcome that handed exactly one result to the sink, and that result is a
  signature detection of the given hash type, digest and malware name.
\<close>

definition single_hash_detection :: "scan_outcome \<Rightarrow> string \<Rightarrow> string \<Rightarrow> string \<Rightarrow> bool" where
  "single_hash_detection oc htype hex name =
     (case emitted oc of
        [r] \<Rightarrow> isMalware r \<and> severity r = ''High'' \<and> detection_source r = ''HASH''
               \<and> hash_type r = htype \<and> hash r = hex \<and> malware_name r = name
               \<and> desc r = ''Matched '' @ htype @ '' in DB''
      | _ \<Rightarrow> False)"

text \<open>
  The guards of \<open>scan_file_internal\<close> before step 2 all let the file through: the scanner
  is initialised, the path is not excluded, the file exists and is regular, and either the
  full-scan override is set or the file is neither oversized, nor signed by a trusted
  publisher, nor whitelisted.
\<close>

definition passes_policy_gate :: "YaraScanner \<Rightarrow> string \<Rightarrow> file_env \<Rightarrow> bool" where
  "passes_policy_gate s file_path f =
     (initialized s \<and> \<not> is_excluded_path file_path \<and> exists_regular f
      \<and> (full_scan_override s
          \<or> (\<not> skip_by_size f \<and> \<not> trusted_publisher f \<and> \<not> whitelist_hit s f)))"

text \<open>The identifiers of the rule-matching messages of an engine run, in order.\<close>

fun matched_ids :: "yara_message list \<Rightarrow> string list" where
  "matched_ids [] = []"
| "matched_ids (CALLBACK_MSG_RULE_MATCHING rule # ms) =
     (case rule of None \<Rightarrow> ''unknown'' | Some i \<Rightarrow> i) # matched_ids ms"
| "matched_ids (_ # ms) = matched_ids ms"

text \<open>
  The aggregated detection for the matched rules \<open>rs\<close> of a file, every field written
  out.
\<close>

definition aggregated_detection ::
  "sys_env \<Rightarrow> string \<Rightarrow> file_env \<Rightarrow> string list \<Rightarrow> Result" where
  "aggregated_detection env file_path f rs =
     \<lparr> isMalware = True, date = now_text env, nameDesktop = host_name env,
       severity = ''Warning'', filename = base_name f, filepath = file_path,
       desc = ''Matched by '' @ to_string (length rs)
                @ (if length rs = 1 then '' rule: '' else '' rules: '') @ join_rules rs,
       md5 = copy_digest (digest_md5 f), sha1 = copy_digest (digest_sha1 f),
       sha256 = copy_digest (digest_sha256 f),
       hash = [], hash_type = [], detection_source = ''YARA'', malware_name = [],
       matched_rules_count = int (length rs), matched_rules = rs \<rparr>"

section \<open>Example inputs for the scan properties\<close>

definition plain_file :: file_env where
  "plain_file = \<lparr> exists_regular = True, fsize = 10, trusted_publisher = False,
     digest_md5 = Some ''m'', digest_sha1 = Some ''s1'', digest_sha256 = Some ''s256'',
     base_name = ''a.txt'', file_scan_msgs = [CALLBACK_MSG_SCAN_FINISHED], file_scan_ok = True,
     read_ok = True, mem_scan_msgs = [], mem_scan_ok = True \<rparr>"

definition two_matches :: "yara_message list" where
  "two_matches = [CALLBACK_MSG_RULE_MATCHING (Some ''R1''), CALLBACK_MSG_RULE_NOT_MATCHING,
     CALLBACK_MSG_RULE_MATCHING (Some ''R2'')]"

definition signature_store :: SignatureDb where
  "signature_store = \<lparr> sig_md5 = [''m'' \<mapsto> Some ''Md5.Name''],
     sig_sha1 = [''s1'' \<mapsto> Some ''Sha1.Name''],
     sig_sha256 = [''s256'' \<mapsto> Some ''Test.EICAR''],
     whitelist_rows = {(''w256'', ''sha256'')} \<rparr>"

definition ready_scanner :: YaraScanner where
  "ready_scanner = YaraScanner_new\<lparr> initialized := True, db := Some signature_store \<rparr>"

definition full_scanner :: YaraScanner where
  "full_scanner = ready_scanner\<lparr> full_scan_override := True \<rparr>"

text \<open>A file above 500 MiB, signed by a trusted publisher, whose SHA-256 is whitelisted.\<close>

definition gated_file :: file_env where
  "gated_file = plain_file\<lparr> fsize := 600 * 1024 * 1024, trusted_publisher := True,
     digest_sha256 := Some ''w256'' \<rparr>"

section \<open>Example inputs for the folder scan and the quarantine\<close>

text \<open>A scanner configured through the setters: duty cycle 0.25, cap 1000 ms.\<close>

definition tuned_scanner :: YaraScanner where
  "tuned_scanner = set_throttle_max_sleep_ms 1000 (set_throttle_duty (Finite (1/4))
     (YaraScanner_new\<lparr> initialized := True \<rparr>))"

text \<open>A scanner after \<open>set_throttle_duty(0.0)\<close>.\<close>

definition zero_duty_scanner :: YaraScanner where
  "zero_duty_scanner = set_throttle_duty (Finite 0) (YaraScanner_new\<lparr> initialized := True \<rparr>)"

definition one_file_folder :: "dir_entry list" where
  "one_file_folder = [\<lparr> entry_path = ''a.txt'', entry_is_regular = True,
     entry_env = plain_file, entry_work_ms = 100 \<rparr>]"

definition old_row :: quarantine_row where
  "old_row = \<lparr> row_id = 1, original_path = ''/tmp/old.bin'', stored_filename = ''old.bin'',
     stored_path = ''Q'', stored_size = 5, quarantined_at = 1, original_hash = ''00'',
     row_hash_type = ''sha256'', deleted = False, restored = False \<rparr>"

text \<open>
  A manager with one older quarantined file of five bytes, and a two-byte file \<open>AB\<close> to
  quarantine.
\<close>

definition manager0 :: QuarantineManager where
  "manager0 = \<lparr> quarantine_folder = ''Q'', db_handle_open = False,
     disk = [''/tmp/a.bin'' \<mapsto> [0x41, 0x42], ''Q/old.bin'' \<mapsto> [1, 2, 3, 4, 5]],
     db_info = Map.empty, quarantine_files = [old_row] \<rparr>"

text \<open>
  An environment with ample free disk space and the default limits (no configuration
  value parses); \<open>H\<close> is the digest function, \<open>ins\<close> whether the insert succeeds, and
  \<open>used\<close> the bytes already in the quarantine folder.
\<close>

definition q_env0 :: "(u8 list \<Rightarrow> string) \<Rightarrow> bool \<Rightarrow> u64 \<Rightarrow> q_env" where
  "q_env0 H ins used = \<lparr> db_opens = True, db_errmsg = ''disk I/O error'', stoull = (\<lambda>_. None),
     folder_ready = True, folder_error = [], free_space = 2 ^ 30, folder_bytes = Some used,
     unique_name = ''1_ab_a.bin'', sha256_hex = H, insert_succeeds = ins, db_time = 9 \<rparr>"

section \<open>Definitions for the content-scan property\<close>

text \<open>
  The engine run step 3 starts for a file: the whole-file scan up to \<open>PARTIAL_FILE_MIN\<close>,
  the scan of the sampled buffer above it; whether it succeeds (for the sample, the read
  included); and that none of the three signature lookups hits.
\<close>

definition engine_messages :: "file_env \<Rightarrow> yara_message list" where
  "engine_messages f = (if fsize f \<le> PARTIAL_FILE_MIN then file_scan_msgs f else mem_scan_msgs f)"

definition engine_succeeds :: "file_env \<Rightarrow> bool" where
  "engine_succeeds f =
     (if fsize f \<le> PARTIAL_FILE_MIN then file_scan_ok f else read_ok f \<and> mem_scan_ok f)"

definition no_signature_hit :: "YaraScanner \<Rightarrow> file_env \<Rightarrow> bool" where
  "no_signature_hit s f =
     (lookup_digest s (digest_sha256 f) ''SHA256'' = None
      \<and> lookup_digest s (digest_sha1 f) ''SHA1'' = None
      \<and> lookup_digest s (digest_md5 f) ''MD5'' = None)"

definition rules_scanner :: YaraScanner where
  "rules_scanner = ready_scanner\<lparr> rules := True \<rparr>"

text \<open>A 100 MiB file in whose sample the rules \<open>R1\<close> and \<open>R2\<close> match.\<close>

definition sampled_file :: file_env where
  "sampled_file = \<lparr> exists_regular = True, fsize = 100 * 1024 * 1024, trusted_publisher = False,
     digest_md5 = Some ''d5'', digest_sha1 = Some ''d1'', digest_sha256 = Some ''d256'',
     base_name = ''big.bin'', file_scan_msgs = [], file_scan_ok = False,
     read_ok = True, mem_scan_msgs = two_matches @ [CALLBACK_MSG_SCAN_FINISHED],
     mem_scan_ok = True \<rparr>"

section \<open>Progress percentage\<close>

lemma floor_div_nat: "\<lfloor>100 * real c / real t\<rfloor> = int ((100 * c) div t)"
proof -
  have "\<lfloor>real_of_int (int (100 * c)) / real_of_int (int t)\<rfloor> = int (100 * c) div int t"
    by (rule floor_divide_of_int_eq)
  then show ?thesis by (simp add: zdiv_int)
qed

lemma uint_min_word: "uint (min a b) = min (uint a) (uint (b::u64))"
  by (simp add: min_def word_le_def)

lemma progress_total_zero:
  assumes "total_count s = 0"
  shows "get_progress_percent s = spec_progress_percent 0 (unat (completed_count s))"
proof (cases "completed_count s = 0")
  case True
  with assms show ?thesis
    by (simp add: get_progress_percent_def spec_progress_percent_def)
next
  case False
  then have pos: "0 < unat (completed_count s)" by (simp add: unat_gt_0)
  have "get_progress_percent s = uint (min 99 (completed_count s))"
    using assms False by (simp add: get_progress_percent_def)
  also have "\<dots> = min 99 (uint (completed_count s))"
    by (simp add: uint_min_word)
  also have "\<dots> = min (int (unat (completed_count s))) 99"
    by (simp add: min.commute)
  finally show ?thesis using pos by (simp add: spec_progress_percent_def)
qed

lemma progress_total_pos:
  assumes ov: "unat (completed_count s) * 100 < 2 ^ 64" and nz: "total_count s \<noteq> 0"
  shows "get_progress_percent s = spec_progress_percent (unat (total_count s)) (unat (completed_count s))"
proof -
  let ?c = "completed_count s" and ?t = "total_count s"
  have t0: "0 < unat ?t" using nz by (simp add: unat_gt_0)
  have m: "unat (?c * 100) = unat ?c * 100"
    using ov by (simp add: unat_word_ariths)
  have d: "unat ((?c * 100) div ?t) = (unat ?c * 100) div unat ?t"
    by (simp add: unat_div m)
  define q where "q = (unat ?c * 100) div unat ?t"
  have gt: "((?c * 100) div ?t > 100) = (q > 100)"
    by (simp add: word_less_nat_alt d q_def)
  have val: "uint ((?c * 100) div ?t) = int q"
    using d by (simp add: q_def uint_nat)
  have lhs: "get_progress_percent s = (if q > 100 then 100 else int q)"
    using nz by (simp add: get_progress_percent_def Let_def gt val)
  have "spec_progress_percent (unat ?t) (unat ?c)
          = max 0 (min 100 \<lfloor>100 * real (unat ?c) / real (unat ?t)\<rfloor>)"
    using t0 by (simp only: spec_progress_percent_def if_True)
  also have "\<dots> = max 0 (min 100 (int ((100 * unat ?c) div unat ?t)))"
    by (simp only: floor_div_nat)
  also have "\<dots> = max 0 (min 100 (int q))"
    by (simp only: q_def mult.commute)
  finally have rhs: "spec_progress_percent (unat ?t) (unat ?c) = max 0 (min 100 (int q))" .
  show ?thesis unfolding lhs rhs by (simp add: min_def max_def)
qed

text \<open>
  Claim C9: \<open>get_progress_percent\<close> returns \<open>floor(100 * completed / total)\<close> clamped
  to \<open>[0, 100]\<close> when \<open>total > 0\<close>, \<open>min(completed, 99)\<close> when \<open>total = 0\<close> and
  \<open>completed > 0\<close>, and 0 otherwise. The counters are \<open>uint64_t\<close>; for \<open>total > 0\<close> the
  product \<open>100 * completed\<close> is taken to fit in 64 bits, which it does for every count a
  counter that starts at 0 and grows by one per scanned file reaches in practice. The
  branch \<open>total = 0\<close> needs no bound.
\<close>

theorem progress_percent_formula:
  assumes "total_count s = 0 \<or> unat (completed_count s) * 100 < 2 ^ 64"
  shows "get_progress_percent s
           = spec_progress_percent (unat (total_count s)) (unat (completed_count s))"
proof (cases "total_count s = 0")
  case True
  then show ?thesis using progress_total_zero [of s] by simp
next
  case False
  with assms have "unat (completed_count s) * 100 < 2 ^ 64" by simp
  then show ?thesis using False by (rule progress_total_pos)
qed

theorem progress_percent_formula_witness:
  "unat (completed_count (YaraScanner_new\<lparr> total_count := 3, completed_count := 2 \<rparr>)) * 100 < 2 ^ 64
   \<and> get_progress_percent (YaraScanner_new\<lparr> total_count := 3, completed_count := 2 \<rparr>) = 66
   \<and> spec_progress_percent 3 2 = 66
   \<and> total_count (YaraScanner_new\<lparr> completed_count := 250 \<rparr>) = 0
   \<and> get_progress_percent (YaraScanner_new\<lparr> completed_count := 250 \<rparr>) = 99
   \<and> spec_progress_percent 0 250 = 99"
proof -
  have h: "unat (completed_count (YaraScanner_new\<lparr> total_count := 3, completed_count := 2 \<rparr>)) * 100 < 2 ^ 64"
    by simp
  have v: "spec_progress_percent 3 2 = 66"
    by (simp add: spec_progress_percent_def)
  have z: "total_count (YaraScanner_new\<lparr> completed_count := 250 \<rparr>) = 0"
    by (simp add: YaraScanner_new_def)
  have w: "spec_progress_percent 0 250 = 99"
    by (simp add: spec_progress_percent_def)
  from progress_percent_formula [OF disjI2, OF h] progress_percent_formula [OF disjI1, OF z]
    h v z w
  show ?thesis by simp
qed

section \<open>Throttle settings\<close>

text \<open>
  \<open>set_throttle_duty d\<close> with \<open>d <= 0.0\<close> or \<open>d >= 1.0\<close> (the infinities included)
  changes the stored duty cycle to \<open>0.0\<close> and nothing else, whatever was stored before, and
  \<open>get_throttle_settings\<close> then reports \<open>0.0\<close>.
\<close>

lemma set_throttle_duty_stores_zero:
  assumes "d_le d (Finite 0) \<or> d_ge d (Finite 1)"
  shows "set_throttle_duty d s = s\<lparr> throttle_duty_cycle := Finite 0 \<rparr>
         \<and> fst (get_throttle_settings (set_throttle_duty d s)) = Finite 0"
  using assms by (simp add: set_throttle_duty_def get_throttle_settings_def)

section \<open>Event queue invariants\<close>

lemma enqueue_keeps_invariant:
  "queue_invariant s \<Longrightarrow> queue_invariant (enqueue_path_for_scan p t s)"
  by (auto simp: queue_invariant_def enqueue_path_for_scan_def Let_def split: option.splits)

lemma pop_keeps_invariant:
  "queue_invariant s \<Longrightarrow> queue_invariant (snd (pop_queued_path s))"
  by (auto simp: queue_invariant_def pop_queued_path_def split: list.splits)

lemma run_keeps_invariant:
  "queue_invariant s \<Longrightarrow> queue_invariant (run_queue_ops ops s)"
proof (induction ops arbitrary: s)
  case Nil
  then show ?case by simp
next
  case (Cons x xs)
  have "queue_invariant (apply_queue_op x s)"
    using Cons.prems by (cases x) (simp_all add: enqueue_keeps_invariant pop_keeps_invariant)
  then show ?case using Cons.IH by simp
qed

lemma new_scanner_invariant: "queue_invariant YaraScanner_new"
  by (simp add: queue_invariant_def YaraScanner_new_def)

lemma distinct_count_le: "distinct xs \<Longrightarrow> count_list xs p \<le> 1"
  by (induction xs) auto

text \<open>
  Claim C5: after any sequence of enqueue operations on the queue of a new scanner (pops
  by the worker may be interleaved), every path occurs at most once in the queue, and
  every queued path has an entry in the last-seen map.
\<close>

theorem queue_unique_and_seen:
  "(\<forall>p. count_list (path_queue (run_queue_ops ops YaraScanner_new)) p \<le> 1)
   \<and> (\<forall>p \<in> set (path_queue (run_queue_ops ops YaraScanner_new)).
         last_event_time (run_queue_ops ops YaraScanner_new) p \<noteq> None)"
proof -
  have inv: "queue_invariant (run_queue_ops ops YaraScanner_new)"
    by (rule run_keeps_invariant [OF new_scanner_invariant])
  then have d: "distinct (path_queue (run_queue_ops ops YaraScanner_new))"
    by (simp add: queue_invariant_def)
  have "count_list (path_queue (run_queue_ops ops YaraScanner_new)) p \<le> 1" for p
    using d by (rule distinct_count_le)
  moreover have "\<forall>p \<in> set (path_queue (run_queue_ops ops YaraScanner_new)).
         last_event_time (run_queue_ops ops YaraScanner_new) p \<noteq> None"
    using inv by (auto simp: queue_invariant_def)
  ultimately show ?thesis by blast
qed

theorem queue_unique_and_seen_witness:
  "path_queue (run_queue_ops [Enqueue ''a'' 1, Enqueue ''b'' 2, Enqueue ''a'' 3] YaraScanner_new) = [''a'', ''b'']
   \<and> count_list (path_queue (run_queue_ops [Enqueue ''a'' 1, Enqueue ''b'' 2, Enqueue ''a'' 3] YaraScanner_new)) ''a'' \<le> 1
   \<and> last_event_time (run_queue_ops [Enqueue ''a'' 1, Enqueue ''b'' 2, Enqueue ''a'' 3] YaraScanner_new) ''a'' \<noteq> None"
  using queue_unique_and_seen [of "[Enqueue ''a'' 1, Enqueue ''b'' 2, Enqueue ''a'' 3]"]
  by (simp add: enqueue_path_for_scan_def YaraScanner_new_def)

section \<open>Monitor lifecycle\<close>

text \<open>
  Claim C4: \<open>start_realtime\<close> on a monitor that is not \<open>Stopped\<close> returns false and leaves
  every field as it was; and when \<open>stop_realtime\<close> returns from a \<open>Running\<close> monitor, the
  state is \<open>Stopped\<close>, the queue and the last-seen map are empty and callbacks are
  disabled, whatever the two threads did before they were joined.
\<close>

theorem lifecycle_start_rejected_stop_clears:
  "(monitor_state s \<noteq> Stopped \<longrightarrow> start_realtime cb w1 w2 te s = (False, s))
   \<and> (monitor_state s = Running \<longrightarrow>
        monitor_state (stop_realtime te' s) = Stopped
        \<and> path_queue (stop_realtime te' s) = []
        \<and> last_event_time (stop_realtime te' s) = Map.empty
        \<and> \<not> callbacks_enabled (stop_realtime te' s))"
  by (simp add: start_realtime_def stop_realtime_def threads_ran_def Let_def)

theorem lifecycle_start_rejected_stop_clears_witness:
  "monitor_state running_monitor = Running
   \<and> start_realtime (Some 2) True True busy_threads running_monitor = (False, running_monitor)
   \<and> monitor_state (stop_realtime busy_threads running_monitor) = Stopped
   \<and> path_queue (stop_realtime busy_threads running_monitor) = []
   \<and> last_event_time (stop_realtime busy_threads running_monitor) = Map.empty
   \<and> \<not> callbacks_enabled (stop_realtime busy_threads running_monitor)"
proof -
  have h: "monitor_state running_monitor = Running"
    by (simp add: running_monitor_def)
  then have h2: "monitor_state running_monitor \<noteq> Stopped" by simp
  from lifecycle_start_rejected_stop_clears
         [of running_monitor "Some 2" True True busy_threads busy_threads] h h2
  show ?thesis by blast
qed

section \<open>Signature lookup\<close>

lemma gate_to_signature_stage:
  assumes "passes_policy_gate s p f"
  shows "scan_file_internal env s p f cb = signature_stage env s p f cb"
  using assms by (auto simp: passes_policy_gate_def scan_file_internal_def)

lemma report_hit_single:
  assumes "cb \<noteq> None" "py_initialized env"
  shows "single_hash_detection (report_hit env p f cb htype (h, n)) htype h n
         \<and> content_scan (report_hit env p f cb htype (h, n)) = NoContentScan"
  using assms
  by (simp add: single_hash_detection_def report_hit_def call_callback_if_python_ready_def
        hash_detection_def silent_return_def Result_default_def)

lemma example_path_not_excluded: "\<not> is_excluded_path ''a.txt''"
  by (simp add: is_excluded_path_def excluded_keywords_def tolower_char_def)

text \<open>
  Claim C1: for a file that passes the policy gate, scanned with a sink that is set while
  the host runtime is initialised, the signature store decides in the order SHA-256,
  SHA-1, MD5. A SHA-256 hit yields exactly one detection with \<open>is_malware\<close>, severity
  \<open>High\<close>, source \<open>HASH\<close>, hash type \<open>SHA256\<close>, the matched digest, the store's malware
  name and description \<open>Matched SHA256 in DB\<close>, whatever the other two tables hold; a
  SHA-1 hit is reported in the same way only when SHA-256 missed, an MD5 hit only when
  both missed; and in each case no content scan runs.
\<close>

theorem signature_lookup_precedence:
  assumes gate: "passes_policy_gate s p f"
    and sink: "cb \<noteq> None" "py_initialized env"
  shows "(lookup_digest s (digest_sha256 f) ''SHA256'' = Some (h, n) \<longrightarrow>
            single_hash_detection (scan_file_internal env s p f cb) ''SHA256'' h n
            \<and> content_scan (scan_file_internal env s p f cb) = NoContentScan)
       \<and> (lookup_digest s (digest_sha256 f) ''SHA256'' = None
            \<and> lookup_digest s (digest_sha1 f) ''SHA1'' = Some (h, n) \<longrightarrow>
            single_hash_detection (scan_file_internal env s p f cb) ''SHA1'' h n
            \<and> content_scan (scan_file_internal env s p f cb) = NoContentScan)
       \<and> (lookup_digest s (digest_sha256 f) ''SHA256'' = None
            \<and> lookup_digest s (digest_sha1 f) ''SHA1'' = None
            \<and> lookup_digest s (digest_md5 f) ''MD5'' = Some (h, n) \<longrightarrow>
            single_hash_detection (scan_file_internal env s p f cb) ''MD5'' h n
            \<and> content_scan (scan_file_internal env s p f cb) = NoContentScan)"
  using report_hit_single [OF sink]
  by (simp add: gate_to_signature_stage [OF gate] signature_stage_def)

theorem signature_lookup_precedence_witness:
  "passes_policy_gate ready_scanner ''a.txt'' plain_file
   \<and> Some (1::nat) \<noteq> None \<and> py_initialized demo_env
   \<and> lookup_digest ready_scanner (digest_sha256 plain_file) ''SHA256'' = Some (''s256'', ''Test.EICAR'')
   \<and> lookup_digest ready_scanner (digest_sha1 plain_file) ''SHA1'' = Some (''s1'', ''Sha1.Name'')
   \<and> lookup_digest ready_scanner (digest_md5 plain_file) ''MD5'' = Some (''m'', ''Md5.Name'')
   \<and> single_hash_detection (scan_file_internal demo_env ready_scanner ''a.txt'' plain_file (Some 1))
         ''SHA256'' ''s256'' ''Test.EICAR''
   \<and> content_scan (scan_file_internal demo_env ready_scanner ''a.txt'' plain_file (Some 1)) = NoContentScan"
proof -
  have h1: "passes_policy_gate ready_scanner ''a.txt'' plain_file"
    by (simp add: passes_policy_gate_def example_path_not_excluded ready_scanner_def
          YaraScanner_new_def plain_file_def skip_by_size_def MAX_FILE_SIZE_SKIP_def
          whitelist_hit_def check_hash_whitelist_def signature_store_def)
  have h2: "Some (1::nat) \<noteq> None" by simp
  have h3: "py_initialized demo_env" by (simp add: demo_env_def)
  have l1: "lookup_digest ready_scanner (digest_sha256 plain_file) ''SHA256'' = Some (''s256'', ''Test.EICAR'')"
    by (simp add: lookup_digest_def check_hash_in_db_def ready_scanner_def plain_file_def
          signature_store_def)
  have l2: "lookup_digest ready_scanner (digest_sha1 plain_file) ''SHA1'' = Some (''s1'', ''Sha1.Name'')"
    by (simp add: lookup_digest_def check_hash_in_db_def ready_scanner_def plain_file_def
          signature_store_def)
  have l3: "lookup_digest ready_scanner (digest_md5 plain_file) ''MD5'' = Some (''m'', ''Md5.Name'')"
    by (simp add: lookup_digest_def check_hash_in_db_def ready_scanner_def plain_file_def
          signature_store_def)
  from signature_lookup_precedence [OF h1 h2 h3, of "''s256''" "''Test.EICAR''"] h1 h2 h3 l1 l2 l3
  show ?thesis by simp
qed

section \<open>Aggregated content-scan detection\<close>

lemma deliver_before_finish:
  assumes "CALLBACK_MSG_SCAN_FINISHED \<notin> set ms"
  shows "deliver_messages env ms (Some ctx)
           = (Some (ctx\<lparr> ctx_matched_rules := ctx_matched_rules ctx @ matched_ids ms \<rparr>), [])"
  using assms
proof (induction ms arbitrary: ctx)
  case Nil
  then show ?case by simp
next
  case (Cons m ms)
  then show ?case
    by (cases m) (simp_all add: rule_match_callback_def Let_def)
qed

lemma deliver_append:
  "deliver_messages env (ms @ ns) ud =
     (let (ud', out1) = deliver_messages env ms ud;
          (ud'', out2) = deliver_messages env ns ud'
      in (ud'', out1 @ out2))"
  by (induction ms arbitrary: ud) (simp_all add: Let_def split: prod.splits)

lemma size_to_int_small:
  assumes "n < 2 ^ 31"
  shows "size_to_int n = int n"
proof -
  have "size_to_int n = sint (word_of_int (int n) :: 32 word)"
    by (simp add: size_to_int_def)
  also have "\<dots> = signed_take_bit (LENGTH(32) - 1) (int n)"
    by (rule sint_sbintrunc')
  also have "\<dots> = int n"
    using assms by (simp add: signed_take_bit_int_eq_self)
  finally show ?thesis .
qed

lemma deliver_aggregates:
  assumes fin: "CALLBACK_MSG_SCAN_FINISHED \<notin> set ms"
    and sink: "cb \<noteq> None" "py_initialized env"
    and fits: "length (matched_ids ms) < 2 ^ 31"
  shows "deliver_messages env (ms @ [CALLBACK_MSG_SCAN_FINISHED])
                (Some (new_scan_context p f cb s))
           = (Some ((new_scan_context p f cb s)\<lparr> ctx_matched_rules := [] \<rparr>),
              if matched_ids ms = [] then []
              else [aggregated_detection env p f (matched_ids ms)])"
  using sink size_to_int_small [OF fits]
  by (auto simp: deliver_append deliver_before_finish [OF fin] rule_match_callback_def Let_def
        new_scan_context_def call_callback_if_python_ready_def aggregated_detection_def
        Result_default_def)

lemma yara_stage_aggregates:
  assumes "rules s" "fsize f \<le> PARTIAL_FILE_MAX" "engine_succeeds f"
    and msgs: "engine_messages f = ms @ [CALLBACK_MSG_SCAN_FINISHED]"
    and fin: "CALLBACK_MSG_SCAN_FINISHED \<notin> set ms"
    and sink: "cb \<noteq> None" "py_initialized env"
    and fits: "length (matched_ids ms) < 2 ^ 31"
  shows "emitted (yara_stage env s p f cb)
           = (if matched_ids ms = [] then []
              else [aggregated_detection env p f (matched_ids ms)])"
proof (cases "fsize f \<le> PARTIAL_FILE_MIN")
  case True
  then have m: "file_scan_msgs f = ms @ [CALLBACK_MSG_SCAN_FINISHED]" and ok: "file_scan_ok f"
    using msgs assms(3) by (simp_all add: engine_messages_def engine_succeeds_def)
  show ?thesis
    using True assms(1) ok
    by (simp add: yara_stage_def m deliver_aggregates [OF fin sink fits] silent_return_def)
next
  case False
  then have m: "mem_scan_msgs f = ms @ [CALLBACK_MSG_SCAN_FINISHED]"
    and ok: "mem_scan_ok f" "read_ok f"
    using msgs assms(3) by (simp_all add: engine_messages_def engine_succeeds_def)
  have gt: "fsize f > PARTIAL_FILE_MIN" using False by simp
  show ?thesis
    using False gt assms(1,2) ok
    by (simp add: yara_stage_def m deliver_aggregates [OF fin sink fits] silent_return_def)
qed

lemma sampled_path_not_excluded: "\<not> is_excluded_path ''big.bin''"
  by (simp add: is_excluded_path_def excluded_keywords_def tolower_char_def)

text \<open>
  Claim C3, as stated, at one input: a 100 MiB file with no signature hit is sampled, the
  rules \<open>R1\<close> and \<open>R2\<close> match; the description of the one emitted detection is
  \<open>Matched by 2 rules: R1, R2\<close>, not \<open>Matched 2 rules: R1, R2\<close>.
\<close>

theorem aggregated_description_counterexample:
  "map desc (emitted (scan_file_internal demo_env rules_scanner ''big.bin'' sampled_file (Some 1)))
     = [''Matched by 2 rules: R1, R2'']
   \<and> ''Matched by 2 rules: R1, R2'' \<noteq> ''Matched 2 rules: R1, R2''"
  by (simp add: scan_file_internal_def sampled_path_not_excluded rules_scanner_def
        ready_scanner_def YaraScanner_new_def sampled_file_def skip_by_size_def
        MAX_FILE_SIZE_SKIP_def whitelist_hit_def check_hash_whitelist_def signature_store_def
        signature_stage_def lookup_digest_def check_hash_in_db_def yara_stage_def
        PARTIAL_FILE_MIN_def PARTIAL_FILE_MAX_def two_matches_def rule_match_callback_def Let_def
        new_scan_context_def call_callback_if_python_ready_def demo_env_def to_string.simps
        digit_char_def silent_return_def)

text \<open>
  Claim C3, amended: for a file that passes the policy gate and has no signature hit, in
  a content scan (whole file or sample) that succeeds, ends with the scan-finished
  message and in which \<open>N\<close> rules matched (\<open>N\<close> within the range of the \<open>int\<close> count field),
  with a sink that is set while the host runtime is initialised: for \<open>N >= 1\<close> exactly one
  detection is emitted, with \<open>is_malware\<close>, severity \<open>Warning\<close>, source \<open>YARA\<close>,
  \<open>matched_rules_count = N\<close>, the \<open>N\<close> identifiers in match order, the digests computed
  before, and the description \<open>Matched by N rule: r1\<close> for \<open>N = 1\<close> and
  \<open>Matched by N rules: r1, r2, ...\<close> otherwise; for \<open>N = 0\<close> nothing is emitted.
\<close>

theorem aggregated_detection_emitted:
  assumes gate: "passes_policy_gate s p f"
    and miss: "no_signature_hit s f"
    and scan: "rules s" "fsize f \<le> PARTIAL_FILE_MAX" "engine_succeeds f"
    and msgs: "engine_messages f = ms @ [CALLBACK_MSG_SCAN_FINISHED]"
    and fin: "CALLBACK_MSG_SCAN_FINISHED \<notin> set ms"
    and sink: "cb \<noteq> None" "py_initialized env"
    and fits: "length (matched_ids ms) < 2 ^ 31"
  shows "emitted (scan_file_internal env s p f cb)
           = (if matched_ids ms = [] then []
              else [aggregated_detection env p f (matched_ids ms)])"
proof -
  have "scan_file_internal env s p f cb = yara_stage env s p f cb"
    using miss
    by (simp add: gate_to_signature_stage [OF gate] signature_stage_def no_signature_hit_def)
  then show ?thesis
    using yara_stage_aggregates [OF scan msgs fin sink fits] by simp
qed

theorem aggregated_detection_emitted_witness:
  "passes_policy_gate rules_scanner ''big.bin'' sampled_file
   \<and> no_signature_hit rules_scanner sampled_file
   \<and> rules rules_scanner \<and> fsize sampled_file \<le> PARTIAL_FILE_MAX \<and> engine_succeeds sampled_file
   \<and> engine_messages sampled_file = two_matches @ [CALLBACK_MSG_SCAN_FINISHED]
   \<and> CALLBACK_MSG_SCAN_FINISHED \<notin> set two_matches
   \<and> Some (1::nat) \<noteq> None \<and> py_initialized demo_env
   \<and> length (matched_ids two_matches) < 2 ^ 31
   \<and> emitted (scan_file_internal demo_env rules_scanner ''big.bin'' sampled_file (Some 1))
        = [aggregated_detection demo_env ''big.bin'' sampled_file [''R1'', ''R2'']]
   \<and> desc (aggregated_detection demo_env ''big.bin'' sampled_file [''R1'', ''R2''])
        = ''Matched by 2 rules: R1, R2''
   \<and> matched_rules_count (aggregated_detection demo_env ''big.bin'' sampled_file [''R1'', ''R2'']) = 2"
proof -
  have g: "passes_policy_gate rules_scanner ''big.bin'' sampled_file"
    by (simp add: passes_policy_gate_def sampled_path_not_excluded rules_scanner_def
          ready_scanner_def YaraScanner_new_def sampled_file_def skip_by_size_def
          MAX_FILE_SIZE_SKIP_def whitelist_hit_def check_hash_whitelist_def signature_store_def)
  have n: "no_signature_hit rules_scanner sampled_file"
    by (simp add: no_signature_hit_def lookup_digest_def check_hash_in_db_def rules_scanner_def
          ready_scanner_def sampled_file_def signature_store_def)
  have r: "rules rules_scanner" by (simp add: rules_scanner_def)
  have sz: "fsize sampled_file \<le> PARTIAL_FILE_MAX"
    by (simp add: sampled_file_def PARTIAL_FILE_MAX_def)
  have ok: "engine_succeeds sampled_file"
    by (simp add: engine_succeeds_def sampled_file_def PARTIAL_FILE_MIN_def)
  have m: "engine_messages sampled_file = two_matches @ [CALLBACK_MSG_SCAN_FINISHED]"
    by (simp add: engine_messages_def sampled_file_def PARTIAL_FILE_MIN_def)
  have h1: "CALLBACK_MSG_SCAN_FINISHED \<notin> set two_matches" by (simp add: two_matches_def)
  have h2: "Some (1::nat) \<noteq> None" by simp
  have h3: "py_initialized demo_env" by (simp add: demo_env_def)
  have h4: "length (matched_ids two_matches) < 2 ^ 31" by (simp add: two_matches_def)
  have ids: "matched_ids two_matches = [''R1'', ''R2'']" by (simp add: two_matches_def)
  have d: "desc (aggregated_detection demo_env ''big.bin'' sampled_file [''R1'', ''R2''])
        = ''Matched by 2 rules: R1, R2''"
    by (simp add: aggregated_detection_def to_string.simps digit_char_def)
  have c: "matched_rules_count (aggregated_detection demo_env ''big.bin'' sampled_file [''R1'', ''R2'']) = 2"
    by (simp add: aggregated_detection_def)
  from aggregated_detection_emitted [OF g n r sz ok m h1 h2 h3 h4]
    ids g n r sz ok m h1 h2 h3 h4 d c
  show ?thesis by simp
qed

section \<open>Full-scan override\<close>

text \<open>
  Claim C6, as stated, at one input: with the full-scan override set and a path that is
  not excluded, a file that fails the exists-and-regular check is dropped before its
  digests are computed, while the same file passing that check goes on to the digests: the
  check is not bypassed.
\<close>

theorem full_scan_existence_check_counterexample:
  "full_scan_override full_scanner
   \<and> \<not> is_excluded_path ''a.txt''
   \<and> \<not> hashes_computed (scan_file_internal demo_env full_scanner ''a.txt''
                              (plain_file\<lparr> exists_regular := False \<rparr>) (Some 1))
   \<and> hashes_computed (scan_file_internal demo_env full_scanner ''a.txt'' plain_file (Some 1))"
  by (simp add: example_path_not_excluded full_scanner_def ready_scanner_def YaraScanner_new_def
        scan_file_internal_def silent_return_def signature_stage_def lookup_digest_def
        check_hash_in_db_def signature_store_def plain_file_def report_hit_def)

text \<open>
  Claim C6, amended: with the full-scan override set (and the scanner initialised), the
  exclusion-path check and the exists-and-regular check still run; the oversized, trusted
  publisher and whitelist checks are bypassed, so every other file goes straight to the
  signature lookup, whatever its size, signer and whitelist status.
\<close>

theorem full_scan_bypasses_size_publisher_whitelist:
  assumes "initialized s" "full_scan_override s"
  shows "scan_file_internal env s p f cb =
           (if is_excluded_path p then silent_return\<lparr> completed_added := 1 \<rparr>
            else if \<not> exists_regular f then silent_return
            else signature_stage env s p f cb)"
  using assms by (simp add: scan_file_internal_def)

theorem full_scan_bypasses_size_publisher_whitelist_witness:
  "initialized full_scanner \<and> full_scan_override full_scanner
   \<and> skip_by_size gated_file \<and> trusted_publisher gated_file \<and> whitelist_hit full_scanner gated_file
   \<and> scan_file_internal demo_env full_scanner ''a.txt'' gated_file (Some 1)
       = signature_stage demo_env full_scanner ''a.txt'' gated_file (Some 1)
   \<and> map detection_source (emitted (scan_file_internal demo_env full_scanner ''a.txt'' gated_file (Some 1)))
       = [''HASH'']"
proof -
  have h1: "initialized full_scanner"
    by (simp add: full_scanner_def ready_scanner_def)
  have h2: "full_scan_override full_scanner"
    by (simp add: full_scanner_def)
  have g1: "skip_by_size gated_file"
    by (simp add: skip_by_size_def gated_file_def plain_file_def MAX_FILE_SIZE_SKIP_def)
  have g2: "trusted_publisher gated_file"
    by (simp add: gated_file_def)
  have g3: "whitelist_hit full_scanner gated_file"
    by (simp add: whitelist_hit_def check_hash_whitelist_def gated_file_def full_scanner_def
          ready_scanner_def signature_store_def)
  have e: "map detection_source (emitted (signature_stage demo_env full_scanner ''a.txt'' gated_file (Some 1)))
       = [''HASH'']"
    by (simp add: signature_stage_def lookup_digest_def check_hash_in_db_def gated_file_def
          plain_file_def full_scanner_def ready_scanner_def signature_store_def report_hit_def
          call_callback_if_python_ready_def demo_env_def hash_detection_def)
  from full_scan_bypasses_size_publisher_whitelist
         [OF h1 h2, of demo_env "''a.txt''" gated_file "Some 1"]
    example_path_not_excluded h1 h2 g1 g2 g3 e
  show ?thesis by (simp add: gated_file_def plain_file_def)
qed

section \<open>Folder-scan throttle\<close>

text \<open>
  Whatever the scanner's settings, the throttle call of the folder scan sleeps
  \<open>min(w, 500)\<close> ms after a file that took \<open>w >= 2\<close> ms, and not at all below 2 ms.
\<close>

lemma scan_folder_throttle_fixed:
  "scan_folder_throttle s w = Some (if w < 2 then 0 else min w 500)"
  by (simp add: scan_folder_throttle_def throttle_after_work_def d_ge_def trunc_to_int_def
        min_def)

text \<open>
  Claim C8 at a failing input: after \<open>set_throttle_duty(0.25)\<close> and
  \<open>set_throttle_max_sleep_ms(1000)\<close>, which \<open>get_throttle_settings\<close> reports, a folder
  scan of one file whose work took 100 ms sleeps 100 ms, where the claimed bound
  \<open>min(w * (1 - d) / d, M)\<close> is 300 ms.
\<close>

theorem folder_scan_ignores_throttle_settings:
  "fst (get_throttle_settings tuned_scanner) = Finite (1/4)
   \<and> snd (get_throttle_settings tuned_scanner) = 1000
   \<and> snd (snd (scan_folder demo_env True one_file_folder (Some 1) tuned_scanner)) = [Some 100]
   \<and> spec_throttle_sleep (1/4) 1000 100 = 300"
  by (simp add: tuned_scanner_def set_throttle_duty_def set_throttle_max_sleep_ms_def
        get_throttle_settings_def d_ge_def YaraScanner_new_def scan_folder_def one_file_folder_def
        scan_folder_step_def scan_file_internal_def example_path_not_excluded plain_file_def
        skip_by_size_def MAX_FILE_SIZE_SKIP_def whitelist_hit_def check_hash_whitelist_def
        signature_stage_def lookup_digest_def check_hash_in_db_def yara_stage_def silent_return_def
        add_completed_def scan_folder_throttle_def throttle_after_work_def trunc_to_int_def
        spec_throttle_sleep_def Let_def)

text \<open>
  Claim C10 at a failing input: \<open>set_throttle_duty(0.0)\<close> stores the duty cycle \<open>0.0\<close>,
  which \<open>get_throttle_settings\<close> reports, but inter-file throttling is not disabled: a
  folder scan of one file whose work took 100 ms still sleeps 100 ms, because the throttle
  call of \<open>scan_folder\<close> does not read the stored duty cycle.
\<close>

theorem zero_duty_does_not_disable_folder_throttle:
  "d_le (Finite 0) (Finite 0)
   \<and> fst (get_throttle_settings zero_duty_scanner) = Finite 0
   \<and> snd (snd (scan_folder demo_env True one_file_folder (Some 1) zero_duty_scanner)) = [Some 100]"
  by (simp add: zero_duty_scanner_def set_throttle_duty_def
        get_throttle_settings_def YaraScanner_new_def scan_folder_def one_file_folder_def
        scan_folder_step_def scan_file_internal_def example_path_not_excluded plain_file_def
        skip_by_size_def MAX_FILE_SIZE_SKIP_def whitelist_hit_def check_hash_whitelist_def
        signature_stage_def lookup_digest_def check_hash_in_db_def yara_stage_def silent_return_def
        add_completed_def scan_folder_throttle_def throttle_after_work_def trunc_to_int_def
        d_ge_def Let_def)

section \<open>Quarantine\<close>

lemma example_paths:
  "path_join ''Q'' ''1_ab_a.bin'' = ''Q/1_ab_a.bin''"
  "path_join ''Q'' ''old.bin'' = ''Q/old.bin''"
  by (simp_all add: path_join_def)

text \<open>
  The normal branch with a failing insert: the stored file is deleted again and the
  status begins with \<open>ERROR:\<close>.
\<close>

lemma quarantine_normal_insert_failure:
  "fst (quarantine (q_env0 H False 0) ''/tmp/a.bin'' manager0)
     = ''ERROR: Failed to record quarantine in DB: disk I/O error''
   \<and> disk (snd (quarantine (q_env0 H False 0) ''/tmp/a.bin'' manager0)) ''Q/1_ab_a.bin'' = None"
  by (simp add: quarantine_def q_env0_def manager0_def get_db_info_value_def file_size_bytes_def
        DEFAULT_SAFE_FREE_BYTES_def DEFAULT_QUARANTINE_FOLDER_LIMIT_BYTES_def
        get_total_quarantine_bytes_def store_and_record_def xor_transform_file_def example_paths
        compute_hash_def insert_quarantine_record_def Let_def)

text \<open>
  Claim C2 at a failing input: the quarantine folder is at its limit, pruning frees the
  older five-byte file, the obfuscated copy is written and the insert fails. The status
  is \<open>PRUNED_AND_QUARANTINED\<close>, not \<open>ERROR:\<close>; the stored file stays on disk and no row
  records it.
\<close>

theorem quarantine_pruned_insert_failure_leaves_orphan:
  "fst (quarantine (q_env0 H False 524288000) ''/tmp/a.bin'' manager0)
     = ''PRUNED_AND_QUARANTINED: freed=5 bytes; stored_as=Q/1_ab_a.bin''
   \<and> disk (snd (quarantine (q_env0 H False 524288000) ''/tmp/a.bin'' manager0)) ''Q/1_ab_a.bin''
       = Some [0xEB, 0x17]
   \<and> quarantine_files (snd (quarantine (q_env0 H False 524288000) ''/tmp/a.bin'' manager0)) = []"
  by (simp add: quarantine_def q_env0_def manager0_def get_db_info_value_def file_size_bytes_def
        DEFAULT_SAFE_FREE_BYTES_def DEFAULT_QUARANTINE_FOLDER_LIMIT_BYTES_def
        get_total_quarantine_bytes_def store_and_record_def xor_transform_file_def example_paths
        DEFAULT_XOR_KEY_def compute_hash_def insert_quarantine_record_def Let_def
        prune_quarantine_if_needed_def old_row_def remove_quarantine_record_by_id_def
        to_string.simps digit_char_def)

text \<open>
  For every file that is stored and recorded, the \<open>original_hash\<close> of the new row is the
  digest of the obfuscated bytes.
\<close>

lemma recorded_hash_is_of_stored_bytes:
  assumes "disk m p = Some bs" "db_handle_open m" "insert_succeeds env"
  shows "(case store_and_record env p m of
            None \<Rightarrow> False
          | Some (ok, dest, m') \<Rightarrow>
              ok \<and> original_hash (last (quarantine_files m')) = sha256_hex env (xor_bytes bs 0))"
  using assms
  by (simp add: store_and_record_def xor_transform_file_def compute_hash_def
        insert_quarantine_record_def Let_def)

text \<open>
  Claim C7 at a failing input: quarantining the file with content \<open>AB\<close> (bytes 41 42)
  succeeds, and the new row's \<open>original_hash\<close> is the digest \<open>H\<close> of the stored bytes
  EB 17, not of the bytes 41 42 the file held before obfuscation.
\<close>

theorem quarantine_records_hash_of_obfuscated_copy:
  "fst (quarantine (q_env0 H True 0) ''/tmp/a.bin'' manager0) = ''QUARANTINED: stored_as=Q/1_ab_a.bin''
   \<and> map original_hash (quarantine_files (snd (quarantine (q_env0 H True 0) ''/tmp/a.bin'' manager0)))
       = [''00'', H [0xEB, 0x17]]
   \<and> disk manager0 ''/tmp/a.bin'' = Some [0x41, 0x42]"
  by (simp add: quarantine_def q_env0_def manager0_def get_db_info_value_def file_size_bytes_def
        DEFAULT_SAFE_FREE_BYTES_def DEFAULT_QUARANTINE_FOLDER_LIMIT_BYTES_def
        get_total_quarantine_bytes_def store_and_record_def xor_transform_file_def example_paths
        DEFAULT_XOR_KEY_def compute_hash_def insert_quarantine_record_def Let_def old_row_def)

end
